theory Spec2Isabelle
  imports Complex_Main
begin

chapter \<open>The model\<close>

section \<open>Numeric model\<close>

text \<open>
  The library computes on NumPy arrays of IEEE doubles. Array elements are modelled as exact
  reals; rounding is not modelled. The one floating-point effect the functions below rely on
  is kept: a division by zero (and a square root of a negative number) does not raise but
  yields a non-finite element (\<open>inf\<close>, \<open>-inf\<close> or \<open>nan\<close>), written \<open>NonFin\<close>. Sums and
  products with a non-finite operand are non-finite again.
\<close>

datatype fval = Fin real | NonFin

fun fadd :: "fval \<Rightarrow> fval \<Rightarrow> fval" where
  "fadd (Fin a) (Fin b) = Fin (a + b)"
| "fadd _ _ = NonFin"

fun fmul :: "fval \<Rightarrow> fval \<Rightarrow> fval" where
  "fmul (Fin a) (Fin b) = Fin (a * b)"
| "fmul _ _ = NonFin"

definition np_divide :: "real \<Rightarrow> real \<Rightarrow> fval" where
  "np_divide a b = (if b = 0 then NonFin else Fin (a / b))"

definition np_sqrt :: "real \<Rightarrow> fval" where
  "np_sqrt a = (if a < 0 then NonFin else Fin (sqrt a))"

fun fsqrt :: "fval \<Rightarrow> fval" where
  "fsqrt (Fin a) = np_sqrt a"
| "fsqrt NonFin = NonFin"

definition fsquare :: "fval \<Rightarrow> fval" where
  "fsquare x = fmul x x"

fun fdiv_real :: "fval \<Rightarrow> real \<Rightarrow> fval" where
  "fdiv_real (Fin a) b = np_divide a b"
| "fdiv_real NonFin b = NonFin"

section \<open>Arrays and the reshape-in, reshape-out discipline\<close>

text \<open>
  An array is its shape (\<open>dims\<close>) and its elements in row-major order (\<open>elems\<close>). A
  well-formed array has as many elements as its shape says.
\<close>

record 'a ndarray =
  dims :: "nat list"
  elems :: "'a list"

definition wf_array :: "'a ndarray \<Rightarrow> bool" where
  "wf_array a = (length (elems a) = prod_list (dims a))"

text \<open>
  The exceptions of the modelled functions, as values. \<open>TransformNotDefined\<close> is the
  \<open>KeyError\<close> of the adaptation-transform lookup, with the name asked for and the keys
  of the registry that its message lists; \<open>WavelengthNotInDomain\<close> is the \<open>ValueError\<close>
  of the tristimulus lookup, with the query and the bounds that its message prints;
  \<open>ReshapeError\<close>, \<open>BroadcastError\<close>, \<open>EmptyReduction\<close> and \<open>ZeroStepError\<close> are the
  \<open>ValueError\<close>s that NumPy and Python raise for a reshape to a shape of another size, for
  operands that cannot be broadcast together, for the minimum or maximum of an empty
  array and for a slice of step zero; \<open>KeyError\<close> is a missing dictionary key;
  \<open>InterpolatorError\<close> is whatever an interpolator raises.
\<close>

datatype error =
    TransformNotDefined string "string list"
  | WavelengthNotInDomain "real list" real real
  | ReshapeError nat "int list"
  | BroadcastError nat nat
  | EmptyReduction
  | LinAlgError
  | KeyError real
  | NotImplementedError
  | ZeroStepError
  | InterpolatorError

text \<open>
  Modelled from the spec: \<open>as_shape\<close>, \<open>as_array\<close>, \<open>auto_axis\<close> and \<open>as_stack\<close> of
  \<open>colour.utilities\<close> are not part of the sources at hand. The spec describes them as
  flattening to a canonical \<open>(-1, k)\<close> shape and reshaping the result to the caller's
  shape, the trailing channel dimension being substituted; \<open>XYZ_to_xy_vectorise\<close> shows
  that \<open>auto_axis\<close> leaves the trailing dimension to be inferred (\<open>-1\<close>). Reshaping
  follows \<open>numpy.reshape\<close>: at most one dimension \<open>-1\<close>, and the sizes must agree.
\<close>

definition as_shape :: "'a ndarray \<Rightarrow> nat list" where
  "as_shape a = dims a"

definition auto_axis :: "nat list \<Rightarrow> int list" where
  "auto_axis s = (if s = [] then [] else map int (butlast s) @ [- 1])"

definition resolve_shape :: "nat \<Rightarrow> int list \<Rightarrow> nat list option" where
  "resolve_shape n target =
     (let known = prod_list (map nat (filter (\<lambda>d. d \<noteq> - 1) target));
          unknown = length (filter (\<lambda>d. d = - 1) target)
      in if list_ex (\<lambda>d. d < - 1) target \<or> unknown > 1 then None
         else if unknown = 0 then (if known = n then Some (map nat target) else None)
         else if known = 0 \<or> n mod known \<noteq> 0 then None
         else Some (map (\<lambda>d. if d = - 1 then n div known else nat d) target))"

definition np_reshape :: "'a list \<Rightarrow> int list \<Rightarrow> error + 'a ndarray" where
  "np_reshape xs target =
     (case resolve_shape (length xs) target of
        None \<Rightarrow> Inl (ReshapeError (length xs) target)
      | Some s \<Rightarrow> Inr \<lparr> dims = s, elems = xs \<rparr>)"

fun rows3 :: "'a list \<Rightarrow> ('a \<times> 'a \<times> 'a) list" where
  "rows3 (a # b # c # xs) = (a, b, c) # rows3 xs"
| "rows3 _ = []"

fun flat3 :: "('a \<times> 'a \<times> 'a) list \<Rightarrow> 'a list" where
  "flat3 [] = []"
| "flat3 ((a, b, c) # rs) = a # b # c # flat3 rs"

definition as_array3 :: "'a ndarray \<Rightarrow> error + ('a \<times> 'a \<times> 'a) list" where
  "as_array3 a =
     (if length (elems a) mod 3 = 0 then Inr (rows3 (elems a))
      else Inl (ReshapeError (length (elems a)) [- 1, 3]))"

text \<open>Elementwise operations on two row lists broadcast a single row against many.\<close>

definition broadcast_rows :: "'a list \<Rightarrow> 'b list \<Rightarrow> error + ('a \<times> 'b) list" where
  "broadcast_rows xs ys =
     (if length xs = length ys then Inr (zip xs ys)
      else if length xs = 1 then Inr (map (\<lambda>y. (hd xs, y)) ys)
      else if length ys = 1 then Inr (map (\<lambda>x. (x, hd ys)) xs)
      else Inl (BroadcastError (length xs) (length ys)))"

text \<open>A single colour: the array of shape \<open>(3,)\<close> holding one triple.\<close>

definition colour1 :: "'a \<times> 'a \<times> 'a \<Rightarrow> 'a ndarray" where
  "colour1 v = (case v of (a, b, c) \<Rightarrow> \<lparr> dims = [3], elems = [a, b, c] \<rparr>)"

section \<open>Correlated colour temperature to CIE D chromaticity\<close>

text \<open>
  \<open>CCT_to_xy_CIE_D_vectorise\<close>: the input is flattened to a column of temperatures; the
  warning is emitted when \<open>np.any\<close> of the out-of-domain temperatures is true, that is when
  one of them is non-zero. \<open>np.where(CCT <= 7000, low, high)\<close> selects per element.
\<close>

definition CIE_D_x_low :: "real \<Rightarrow> fval" where
  "CIE_D_x_low CCT =
     fadd (fadd (fadd (np_divide (- 4.607 * 10 ^ 9) (CCT ^ 3))
                      (np_divide (2.9678 * 10 ^ 6) (CCT ^ 2)))
                (np_divide (0.09911 * 10 ^ 3) CCT))
          (Fin 0.244063)"

definition CIE_D_x_high :: "real \<Rightarrow> fval" where
  "CIE_D_x_high CCT =
     fadd (fadd (fadd (np_divide (- 2.0064 * 10 ^ 9) (CCT ^ 3))
                      (np_divide (1.9018 * 10 ^ 6) (CCT ^ 2)))
                (np_divide (0.24748 * 10 ^ 3) CCT))
          (Fin 0.23704)"

definition CIE_D_x :: "real \<Rightarrow> fval" where
  "CIE_D_x CCT = (if CCT \<le> 7000 then CIE_D_x_low CCT else CIE_D_x_high CCT)"

definition CIE_D_y :: "fval \<Rightarrow> fval" where
  "CIE_D_y x = fadd (fadd (fmul (Fin (- 3)) (fmul x x)) (fmul (Fin 2.87) x)) (Fin (- 0.275))"

record CCT_result =
  warning_emitted :: bool
  result_xy :: "(fval \<times> fval) list"

definition CCT_to_xy_CIE_D_vectorise :: "real list \<Rightarrow> CCT_result" where
  "CCT_to_xy_CIE_D_vectorise CCT =
     \<lparr> warning_emitted = list_ex (\<lambda>c. c \<noteq> 0) (filter (\<lambda>c. c < 4000 \<or> c > 25000) CCT),
       result_xy = map (\<lambda>c. let x = CIE_D_x c in (x, CIE_D_y x)) CCT \<rparr>"

text \<open>The two cubic polynomials of the source, over the reals.\<close>

definition poly_low :: "real \<Rightarrow> real" where
  "poly_low T = - 4.607 * 10 ^ 9 / T ^ 3 + 2.9678 * 10 ^ 6 / T ^ 2 + 0.09911 * 10 ^ 3 / T + 0.244063"

definition poly_high :: "real \<Rightarrow> real" where
  "poly_high T = - 2.0064 * 10 ^ 9 / T ^ 3 + 1.9018 * 10 ^ 6 / T ^ 2 + 0.24748 * 10 ^ 3 / T + 0.23704"

section \<open>CIE 1994 colour difference\<close>

text \<open>
  \<open>delta_E_CIE1994\<close> of \<open>colour/difference/delta_e.py\<close>, for one pair of \<open>Lab\<close> triples
  (\<open>tsplit\<close> of a triple gives its three components). The keyword argument \<open>textiles\<close>
  is optional; \<open>None\<close> stands for a call that leaves it out.
\<close>

definition delta_E_CIE1994 ::
  "real \<times> real \<times> real \<Rightarrow> real \<times> real \<times> real \<Rightarrow> bool option \<Rightarrow> fval" where
  "delta_E_CIE1994 Lab_1 Lab_2 textiles_arg =
     (let textiles = (case textiles_arg of None \<Rightarrow> False | Some t \<Rightarrow> t);
          k_1 = (if textiles then 0.048 else 0.045);
          k_2 = (if textiles then 0.014 else 0.015);
          k_L = (if textiles then 2 else 1);
          k_C = 1;
          k_H = 1;
          (L_1, a_1, b_1) = Lab_1;
          (L_2, a_2, b_2) = Lab_2;
          C_1 = sqrt (a_1 ^ 2 + b_1 ^ 2);
          C_2 = sqrt (a_2 ^ 2 + b_2 ^ 2);
          s_L = 1;
          s_C = 1 + k_1 * C_1;
          s_H = 1 + k_2 * C_1;
          delta_L = L_1 - L_2;
          delta_C = C_1 - C_2;
          delta_A = a_1 - a_2;
          delta_B = b_1 - b_2;
          delta_H = np_sqrt (delta_A ^ 2 + delta_B ^ 2 - delta_C ^ 2);
          L = fsquare (np_divide delta_L (k_L * s_L));
          C = fsquare (np_divide delta_C (k_C * s_C));
          H = fsquare (fdiv_real delta_H (k_H * s_H))
      in fsqrt (fadd (fadd L C) H))"

text \<open>
  \<open>delta_E_CIE1994_vectorise\<close> of \<open>colour_vectorise.py\<close>: both inputs are flattened to rows
  of three, the formula runs on the columns, and the differences are reshaped to the shape
  of \<open>Lab1\<close> with the trailing dimension inferred. (\<open>as_numeric\<close> does not change a number
  and is left out.)
\<close>

definition delta_E_CIE1994_vectorise ::
  "real ndarray \<Rightarrow> real ndarray \<Rightarrow> bool option \<Rightarrow> error + fval ndarray" where
  "delta_E_CIE1994_vectorise Lab1 Lab2 textiles_arg =
     (let textiles = (case textiles_arg of None \<Rightarrow> True | Some t \<Rightarrow> t);
          shape = as_shape Lab1;
          k1 = (if textiles then 0.048 else 0.045);
          k2 = (if textiles then 0.014 else 0.015);
          kL = (if textiles then 2 else 1);
          kC = 1;
          kH = 1
      in case as_array3 Lab1 of Inl e \<Rightarrow> Inl e | Inr Lab1 \<Rightarrow>
         case as_array3 Lab2 of Inl e \<Rightarrow> Inl e | Inr Lab2 \<Rightarrow>
         case broadcast_rows Lab1 Lab2 of Inl e \<Rightarrow> Inl e | Inr pairs \<Rightarrow>
           np_reshape
             (map (\<lambda>((L1, a1, b1), (L2, a2, b2)).
                let C1 = sqrt (a1 ^ 2 + b1 ^ 2);
                    C2 = sqrt (a2 ^ 2 + b2 ^ 2);
                    sL = 1;
                    sC = 1 + k1 * C1;
                    sH = 1 + k2 * C1;
                    delta_L = L1 - L2;
                    delta_C = C1 - C2;
                    delta_A = a1 - a2;
                    delta_B = b1 - b2;
                    delta_H = np_sqrt (delta_A ^ 2 + delta_B ^ 2 - delta_C ^ 2);
                    L = fsquare (np_divide delta_L (kL * sL));
                    C = fsquare (np_divide delta_C (kC * sC));
                    H = fsquare (fdiv_real delta_H (kH * sH))
                in fsqrt (fadd (fadd L C) H)) pairs)
             (auto_axis shape))"

section \<open>Spectral power distributions\<close>

text \<open>
  A distribution owns a name and a dictionary from wavelength to value, kept here as an
  association list read with \<open>map_of\<close>. The type of the values is left open: indexing can
  only hand a stored value back, it cannot compute on it.
\<close>

record 'v SpectralPowerDistribution =
  name :: string
  data :: "(real \<times> 'v) list"

text \<open>
  Modelled from the spec: the class body is not part of the sources at hand, which only
  replace its \<open>__getitem__\<close>. The spec gives \<open>wavelengths\<close> as the sorted sequence of the
  keys and \<open>values\<close> as the parallel sequence.
\<close>

definition wavelengths :: "'v SpectralPowerDistribution \<Rightarrow> real list" where
  "wavelengths spd = sort (remdups (map fst (data spd)))"

definition values_spd :: "'v SpectralPowerDistribution \<Rightarrow> 'v list" where
  "values_spd spd = map (\<lambda>w. the (map_of (data spd) w)) (wavelengths spd)"

text \<open>The index of \<open>spd[...]\<close>: a number, an iterable of numbers, a slice, or anything else.\<close>

datatype index =
    Numeric real
  | Iterable "real list"
  | Slice "int option" "int option" "int option"
  | Unsupported

datatype 'v item = Scalar 'v | Array "'v list"

text \<open>
  Python's slice on a sequence of length \<open>n\<close>: the bounds are clamped as
  \<open>slice.indices\<close> does, negative bounds count from the end, a zero step is an error.
\<close>

definition slice_indices :: "nat \<Rightarrow> int option \<Rightarrow> int option \<Rightarrow> int option \<Rightarrow> error + int list" where
  "slice_indices n start stop step =
     (let st = (case step of None \<Rightarrow> 1 | Some s \<Rightarrow> s)
      in if st = 0 then Inl ZeroStepError
         else
           let len = int n;
               lower = (if st < 0 then - 1 else 0);
               upper = (if st < 0 then len - 1 else len);
               clamp = (\<lambda>v. if v < 0 then max (v + len) lower else min v upper);
               a = (case start of None \<Rightarrow> (if st < 0 then upper else lower) | Some v \<Rightarrow> clamp v);
               b = (case stop of None \<Rightarrow> (if st < 0 then lower else upper) | Some v \<Rightarrow> clamp v);
               count = (if st > 0 then (if a < b then (b - a - 1) div st + 1 else 0)
                        else (if b < a then (a - b - 1) div (- st) + 1 else 0))
           in Inr (map (\<lambda>k. a + int k * st) [0..<nat count]))"

definition getitem_slice :: "'a list \<Rightarrow> int option \<Rightarrow> int option \<Rightarrow> int option \<Rightarrow> error + 'a list" where
  "getitem_slice xs start stop step =
     (case slice_indices (length xs) start stop step of
        Inl e \<Rightarrow> Inl e
      | Inr is \<Rightarrow> Inr (map (\<lambda>i. xs ! nat i) is))"

text \<open>\<open>dict.__getitem__\<close>: a missing key raises \<open>KeyError\<close>.\<close>

definition dict_getitem :: "(real \<times> 'v) list \<Rightarrow> real \<Rightarrow> error + 'v" where
  "dict_getitem d k = (case map_of d k of None \<Rightarrow> Inl (KeyError k) | Some v \<Rightarrow> Inr v)"

text \<open>The list comprehension over an iterable index stops at the first missing key.\<close>

fun dict_getitems :: "(real \<times> 'v) list \<Rightarrow> real list \<Rightarrow> error + 'v list" where
  "dict_getitems d [] = Inr []"
| "dict_getitems d (x # xs) =
     (case dict_getitem d x of
        Inl e \<Rightarrow> Inl e
      | Inr v \<Rightarrow> (case dict_getitems d xs of Inl e \<Rightarrow> Inl e | Inr vs \<Rightarrow> Inr (v # vs)))"

text \<open>\<open>SpectralPowerDistribution__getitem__\<close>.\<close>

fun SpectralPowerDistribution_getitem ::
  "'v SpectralPowerDistribution \<Rightarrow> index \<Rightarrow> error + 'v item" where
  "SpectralPowerDistribution_getitem self (Numeric wavelength) =
     (case dict_getitem (data self) wavelength of Inl e \<Rightarrow> Inl e | Inr v \<Rightarrow> Inr (Scalar v))"
| "SpectralPowerDistribution_getitem self (Iterable wavelength) =
     (case dict_getitems (data self) wavelength of Inl e \<Rightarrow> Inl e | Inr vs \<Rightarrow> Inr (Array vs))"
| "SpectralPowerDistribution_getitem self (Slice start stop step) =
     (case getitem_slice (values_spd self) start stop step of
        Inl e \<Rightarrow> Inl e | Inr vs \<Rightarrow> Inr (Array vs))"
| "SpectralPowerDistribution_getitem self Unsupported = Inl NotImplementedError"

text \<open>The distribution of the spec's example.\<close>

definition spd_example :: "real SpectralPowerDistribution" where
  "spd_example = \<lparr> name = ''Spd'',
     data = [(510, 49.67), (520, 69.59), (530, 81.73), (540, 88.19)] \<rparr>"

section \<open>CIE xyY\<close>

fun rows2 :: "'a list \<Rightarrow> ('a \<times> 'a) list" where
  "rows2 (a # b # xs) = (a, b) # rows2 xs"
| "rows2 _ = []"

definition as_array2 :: "'a ndarray \<Rightarrow> error + ('a \<times> 'a) list" where
  "as_array2 a =
     (if length (elems a) mod 2 = 0 then Inr (rows2 (elems a))
      else Inl (ReshapeError (length (elems a)) [- 1, 2]))"

text \<open>
  \<open>numpy.resize\<close> fills the new size with repeated copies of the flattened input (with
  zeros when the input is empty).
\<close>

definition np_resize :: "real list \<Rightarrow> nat \<Rightarrow> real list" where
  "np_resize xs n =
     (if xs = [] then replicate n 0 else map (\<lambda>k. xs ! (k mod length xs)) [0..<n])"

text \<open>
  \<open>xyY_to_XYZ_vectorise\<close>. \<open>np.where\<close> evaluates both operands and picks, row by row,
  \<open>(y, y, y)\<close> where \<open>y == 0\<close> and the quotients elsewhere. The only division by zero is
  in the operand that is discarded for that row, and the decorator
  \<open>handle_numpy_errors(divide='ignore')\<close> silences it; the selected quotients have a
  non-zero divisor, so they are written with the division of the reals.
\<close>

definition xyY_to_XYZ_vectorise :: "real ndarray \<Rightarrow> error + real ndarray" where
  "xyY_to_XYZ_vectorise xyY =
     (let shape = as_shape xyY
      in case as_array3 xyY of Inl e \<Rightarrow> Inl e | Inr xyY \<Rightarrow>
           np_reshape
             (flat3 (map (\<lambda>(x, y, Y).
                if y = 0 then (y, y, y) else (x * Y / y, Y, (1 - x - y) * Y / y)) xyY))
             (auto_axis shape))"

text \<open>\<open>xy_to_XYZ_vectorise\<close>: luminance 1 is stacked onto the chromaticities.\<close>

definition xy_to_XYZ_vectorise :: "real ndarray \<Rightarrow> error + real ndarray" where
  "xy_to_XYZ_vectorise xy =
     (let shape = as_shape xy
      in case as_array2 xy of Inl e \<Rightarrow> Inl e | Inr xy \<Rightarrow>
         case np_reshape (flat3 (map (\<lambda>(x, y). (x, y, 1)) xy)) (auto_axis shape) of
           Inl e \<Rightarrow> Inl e
         | Inr xyY \<Rightarrow> xyY_to_XYZ_vectorise xyY)"

text \<open>
  \<open>XYZ_to_xyY_vectorise\<close>. The illuminant is resized to the shape \<open>(N, 3)\<close> of the
  flattened input; the condition \<open>XYZ == 0\<close> of \<open>np.where\<close> has that shape too, so each
  output component is chosen by the input component at the same position. Here a selected
  quotient can have a zero divisor, and is then non-finite.
\<close>

definition XYZ_to_xyY_vectorise :: "real ndarray \<Rightarrow> real ndarray \<Rightarrow> error + fval ndarray" where
  "XYZ_to_xyY_vectorise XYZ illuminant =
     (let shape = as_shape XYZ
      in case as_array3 XYZ of Inl e \<Rightarrow> Inl e | Inr XYZ \<Rightarrow>
         case as_array2 illuminant of Inl e \<Rightarrow> Inl e | Inr _ \<Rightarrow>
           let illuminant = rows3 (np_resize (elems illuminant) (3 * length XYZ))
           in np_reshape
                (flat3 (map (\<lambda>((X, Y, Z), (i0, i1, i2)).
                   (if X = 0 then Fin i0 else np_divide X (X + Y + Z),
                    if Y = 0 then Fin i1 else np_divide Y (X + Y + Z),
                    if Z = 0 then Fin Y else Fin Y)) (zip XYZ illuminant)))
                (map int shape))"

text \<open>A single chromaticity: the array of shape \<open>(2,)\<close> holding one pair.\<close>

definition chroma1 :: "'a \<times> 'a \<Rightarrow> 'a ndarray" where
  "chroma1 v = (case v of (a, b) \<Rightarrow> \<lparr> dims = [2], elems = [a, b] \<rparr>)"

section \<open>Vectors and matrices of three\<close>

type_synonym 'a vec3 = "'a \<times> 'a \<times> 'a"
type_synonym 'a mat3 = "'a vec3 \<times> 'a vec3 \<times> 'a vec3"

text \<open>A matrix is the triple of its rows. First the operations on finite entries.\<close>

fun dot3 :: "real vec3 \<Rightarrow> real vec3 \<Rightarrow> real" where
  "dot3 (a, b, c) (x, y, z) = a * x + b * y + c * z"

fun mat_vec :: "real mat3 \<Rightarrow> real vec3 \<Rightarrow> real vec3" where
  "mat_vec (r1, r2, r3) v = (dot3 r1 v, dot3 r2 v, dot3 r3 v)"

fun transpose3 :: "'a mat3 \<Rightarrow> 'a mat3" where
  "transpose3 ((a, b, c), (d, e, f), (g, h, i)) = ((a, d, g), (b, e, h), (c, f, i))"

fun mat_mul :: "real mat3 \<Rightarrow> real mat3 \<Rightarrow> real mat3" where
  "mat_mul (r1, r2, r3) B =
     (mat_vec (transpose3 B) r1, mat_vec (transpose3 B) r2, mat_vec (transpose3 B) r3)"

fun det3 :: "real mat3 \<Rightarrow> real" where
  "det3 ((a, b, c), (d, e, f), (g, h, i)) =
     a * (e * i - f * h) - b * (d * i - f * g) + c * (d * h - e * g)"

fun adjugate3 :: "real mat3 \<Rightarrow> real mat3" where
  "adjugate3 ((a, b, c), (d, e, f), (g, h, i)) =
     ((e * i - f * h, c * h - b * i, b * f - c * e),
      (f * g - d * i, a * i - c * g, c * d - a * f),
      (d * h - e * g, b * g - a * h, a * e - b * d))"

fun scale_vec :: "real \<Rightarrow> real vec3 \<Rightarrow> real vec3" where
  "scale_vec k (a, b, c) = (k * a, k * b, k * c)"

fun scale_mat :: "real \<Rightarrow> real mat3 \<Rightarrow> real mat3" where
  "scale_mat k (r1, r2, r3) = (scale_vec k r1, scale_vec k r2, scale_vec k r3)"

definition identity3 :: "real mat3" where
  "identity3 = ((1, 0, 0), (0, 1, 0), (0, 0, 1))"

fun diag3 :: "real vec3 \<Rightarrow> real mat3" where
  "diag3 (a, b, c) = ((a, 0, 0), (0, b, 0), (0, 0, c))"

text \<open>\<open>numpy.linalg.inv\<close> raises \<open>LinAlgError\<close> on a singular matrix.\<close>

definition np_linalg_inv :: "real mat3 \<Rightarrow> error + real mat3" where
  "np_linalg_inv M =
     (if det3 M = 0 then Inl LinAlgError else Inr (scale_mat (1 / det3 M) (adjugate3 M)))"

text \<open>The same products on entries that may be non-finite.\<close>

fun fdot3 :: "fval vec3 \<Rightarrow> fval vec3 \<Rightarrow> fval" where
  "fdot3 (a, b, c) (x, y, z) = fadd (fadd (fmul a x) (fmul b y)) (fmul c z)"

fun fmat_vec :: "fval mat3 \<Rightarrow> fval vec3 \<Rightarrow> fval vec3" where
  "fmat_vec (r1, r2, r3) v = (fdot3 r1 v, fdot3 r2 v, fdot3 r3 v)"

fun fmat_mul :: "fval mat3 \<Rightarrow> fval mat3 \<Rightarrow> fval mat3" where
  "fmat_mul (r1, r2, r3) B =
     (fmat_vec (transpose3 B) r1, fmat_vec (transpose3 B) r2, fmat_vec (transpose3 B) r3)"

fun lift_vec :: "real vec3 \<Rightarrow> fval vec3" where
  "lift_vec (a, b, c) = (Fin a, Fin b, Fin c)"

fun lift_mat :: "real mat3 \<Rightarrow> fval mat3" where
  "lift_mat (r1, r2, r3) = (lift_vec r1, lift_vec r2, lift_vec r3)"

text \<open>\<open>row_as_diagonal\<close>: the diagonal matrix of a row; the other entries are zero.\<close>

fun row_as_diagonal :: "fval vec3 \<Rightarrow> fval mat3" where
  "row_as_diagonal (a, b, c) = ((a, Fin 0, Fin 0), (Fin 0, b, Fin 0), (Fin 0, Fin 0, c))"

section \<open>Chromatic adaptation (von Kries)\<close>

text \<open>
  Modelled from the spec: the registry \<open>CHROMATIC_ADAPTATION_TRANSFORMS\<close> and its class
  \<open>CaseInsensitiveMapping\<close> are not part of the sources at hand. The spec describes a
  fixed registry of named 3x3 cone-response matrices, looked up by case-insensitive name.
  The registry is a parameter of the functions below: an association list whose keys were
  lower-cased when they were stored; \<open>get\<close> lower-cases the name it is asked for.
\<close>

type_synonym registry = "(string \<times> real mat3) list"

definition lower_char :: "char \<Rightarrow> char" where
  "lower_char c =
     (let n = (of_char c :: nat) in if 65 \<le> n \<and> n \<le> 90 then char_of (n + 32) else c)"

definition lower :: "string \<Rightarrow> string" where
  "lower s = map lower_char s"

definition CaseInsensitiveMapping :: "(string \<times> real mat3) list \<Rightarrow> registry" where
  "CaseInsensitiveMapping entries = map (\<lambda>(k, v). (lower k, v)) entries"

definition registry_get :: "registry \<Rightarrow> string \<Rightarrow> real mat3 option" where
  "registry_get r transform = map_of r (lower transform)"

definition registry_keys :: "registry \<Rightarrow> string list" where
  "registry_keys r = map fst r"

text \<open>
  \<open>chromatic_adaptation_matrix_VonKries_vectorise\<close>. The white points are flattened to
  rows of three; the result holds one matrix per row (\<open>np.squeeze\<close> only drops the
  leading dimension when there is a single row).
\<close>

definition chromatic_adaptation_matrix_VonKries_vectorise ::
  "registry \<Rightarrow> real ndarray \<Rightarrow> real ndarray \<Rightarrow> string \<Rightarrow> error + fval mat3 list" where
  "chromatic_adaptation_matrix_VonKries_vectorise CHROMATIC_ADAPTATION_TRANSFORMS XYZ_w XYZ_wr transform =
     (case registry_get CHROMATIC_ADAPTATION_TRANSFORMS transform of
        None \<Rightarrow> Inl (TransformNotDefined transform (registry_keys CHROMATIC_ADAPTATION_TRANSFORMS))
      | Some M \<Rightarrow>
          case as_array3 XYZ_w of Inl e \<Rightarrow> Inl e | Inr XYZ_w \<Rightarrow>
          case as_array3 XYZ_wr of Inl e \<Rightarrow> Inl e | Inr XYZ_wr \<Rightarrow>
            let rgb_w = map (mat_vec M) XYZ_w;
                rgb_wr = map (mat_vec M) XYZ_wr
            in case broadcast_rows rgb_wr rgb_w of Inl e \<Rightarrow> Inl e | Inr pairs \<Rightarrow>
               let D = map (\<lambda>((r', g', b'), (r, g, b)).
                              (np_divide r' r, np_divide g' g, np_divide b' b)) pairs;
                   D = map row_as_diagonal D
               in case np_linalg_inv M of Inl e \<Rightarrow> Inl e | Inr M_inv \<Rightarrow>
                    Inr (map (\<lambda>D. fmat_mul (fmat_mul (lift_mat M_inv) D) (lift_mat M)) D))"

section \<open>Conversions between XYZ and RGB\<close>

text \<open>
  A transfer function, when given, maps every component of the array (as all the transfer
  functions of the file do). \<open>einsum('...i,...ji', v, M)\<close> multiplies each row by the
  matrix, a single matrix being broadcast to all rows.
\<close>

definition apply_transfer :: "(fval \<Rightarrow> fval) option \<Rightarrow> fval vec3 list \<Rightarrow> fval vec3 list" where
  "apply_transfer tf rows =
     (case tf of None \<Rightarrow> rows | Some f \<Rightarrow> map (\<lambda>(a, b, c). (f a, f b, f c)) rows)"

definition XYZ_to_RGB_vectorise ::
  "registry \<Rightarrow> fval ndarray \<Rightarrow> real ndarray \<Rightarrow> real ndarray \<Rightarrow> real mat3 \<Rightarrow> string \<Rightarrow>
     (fval \<Rightarrow> fval) option \<Rightarrow> error + fval ndarray" where
  "XYZ_to_RGB_vectorise TRANSFORMS XYZ illuminant_XYZ illuminant_RGB XYZ_to_RGB_matrix
       chromatic_adaptation_transform transfer_function =
     (let shape = as_shape XYZ
      in case as_array3 XYZ of Inl e \<Rightarrow> Inl e | Inr XYZ \<Rightarrow>
         case xy_to_XYZ_vectorise illuminant_XYZ of Inl e \<Rightarrow> Inl e | Inr XYZ_w \<Rightarrow>
         case xy_to_XYZ_vectorise illuminant_RGB of Inl e \<Rightarrow> Inl e | Inr XYZ_wr \<Rightarrow>
         case chromatic_adaptation_matrix_VonKries_vectorise TRANSFORMS XYZ_w XYZ_wr
                chromatic_adaptation_transform of Inl e \<Rightarrow> Inl e | Inr M \<Rightarrow>
         case broadcast_rows XYZ M of Inl e \<Rightarrow> Inl e | Inr pairs \<Rightarrow>
           let XYZ_a = map (\<lambda>(v, m). fmat_vec m v) pairs;
               RGB = map (fmat_vec (lift_mat XYZ_to_RGB_matrix)) XYZ_a;
               RGB = apply_transfer transfer_function RGB
           in np_reshape (flat3 RGB) (map int shape))"

definition RGB_to_XYZ_vectorise ::
  "registry \<Rightarrow> fval ndarray \<Rightarrow> real ndarray \<Rightarrow> real ndarray \<Rightarrow> real mat3 \<Rightarrow> string \<Rightarrow>
     (fval \<Rightarrow> fval) option \<Rightarrow> error + fval ndarray" where
  "RGB_to_XYZ_vectorise TRANSFORMS RGB illuminant_RGB illuminant_XYZ RGB_to_XYZ_matrix
       chromatic_adaptation_transform inverse_transfer_function =
     (let shape = as_shape RGB
      in case as_array3 RGB of Inl e \<Rightarrow> Inl e | Inr RGB \<Rightarrow>
           let RGB = apply_transfer inverse_transfer_function RGB;
               XYZ = map (fmat_vec (lift_mat RGB_to_XYZ_matrix)) RGB
           in case xy_to_XYZ_vectorise illuminant_RGB of Inl e \<Rightarrow> Inl e | Inr XYZ_w \<Rightarrow>
              case xy_to_XYZ_vectorise illuminant_XYZ of Inl e \<Rightarrow> Inl e | Inr XYZ_wr \<Rightarrow>
              case chromatic_adaptation_matrix_VonKries_vectorise TRANSFORMS XYZ_w XYZ_wr
                     chromatic_adaptation_transform of Inl e \<Rightarrow> Inl e | Inr M \<Rightarrow>
              case broadcast_rows XYZ M of Inl e \<Rightarrow> Inl e | Inr pairs \<Rightarrow>
                let XYZ_a = map (\<lambda>(v, m). fmat_vec m v) pairs
                in np_reshape (flat3 XYZ_a) (map int shape))"

text \<open>
  An example registry for concrete instances: the Bradford cone-response matrix and the
  identity (XYZ scaling), under their usual names.
\<close>

definition bradford :: "real mat3" where
  "bradford = ((0.8951, 0.2664, - 0.1614), (- 0.7502, 1.7135, 0.0367), (0.0389, - 0.0685, 1.0296))"

definition example_transforms :: registry where
  "example_transforms = CaseInsensitiveMapping [(''Bradford'', bradford), (''XYZ Scaling'', identity3)]"

text \<open>
  The tristimulus values of a single chromaticity at luminance 1, which is what
  \<open>xy_to_XYZ_vectorise\<close> returns for it.
\<close>

definition white_XYZ :: "real \<times> real \<Rightarrow> real vec3" where
  "white_XYZ w = (case w of (x, y) \<Rightarrow> if y = 0 then (0, 0, 0) else (x / y, 1, (1 - x - y) / y))"

text \<open>
  The cone responses of a white point under a transform matrix are all non-zero: the
  condition under which the ratios of the adaptation matrix are finite.
\<close>

definition cone_nonzero :: "real mat3 \<Rightarrow> real \<times> real \<Rightarrow> bool" where
  "cone_nonzero B w = (case mat_vec B (white_XYZ w) of (r, g, b) \<Rightarrow> r \<noteq> 0 \<and> g \<noteq> 0 \<and> b \<noteq> 0)"

text \<open>The matrix \<open>M\<close> that the file passes to \<open>XYZ_to_RGB\<close> in its analysis.\<close>

definition M_XYZ_to_RGB :: "real mat3" where
  "M_XYZ_to_RGB = ((3.24100326, - 1.53739899, - 0.49861587),
                   (- 0.96922426, 1.87592999, 0.04155422),
                   (0.05563942, - 0.2040112, 1.05714897))"

text \<open>
  The matrix \<open>M\<close> that the file passes to \<open>RGB_to_XYZ\<close> in its analysis; it inverts
  \<open>M_XYZ_to_RGB\<close> to the eight digits it is written with.
\<close>

definition M_RGB_to_XYZ :: "real mat3" where
  "M_RGB_to_XYZ = ((0.41238656, 0.35759149, 0.18045049),
                   (0.21263682, 0.71518298, 0.0721802),
                   (0.01933062, 0.11919716, 0.95037259))"

text \<open>
  The von Kries matrix from the white point \<open>w\<close> to the white point \<open>wr\<close> under the
  cone-response matrix \<open>B\<close>, when all ratios are finite.
\<close>

definition von_Kries :: "real mat3 \<Rightarrow> real \<times> real \<Rightarrow> real \<times> real \<Rightarrow> real mat3" where
  "von_Kries B w wr =
     (case (mat_vec B (white_XYZ wr), mat_vec B (white_XYZ w)) of
        ((r', g', b'), (r, g, b)) \<Rightarrow>
          mat_mul (mat_mul (scale_mat (1 / det3 B) (adjugate3 B))
                     (diag3 (r' / r, g' / g, b' / b))) B)"

section \<open>CIE Lab to XYZ\<close>

text \<open>
  \<open>Lab_to_XYZ_vectorise\<close>. The constants \<open>CIE_E\<close> and \<open>CIE_K\<close> come from a module that
  is not part of the sources at hand and are parameters. The reference white is resized
  to the shape of the flattened input.
\<close>

definition Lab_to_XYZ_vectorise ::
  "real \<Rightarrow> real \<Rightarrow> real ndarray \<Rightarrow> real ndarray \<Rightarrow> error + fval ndarray" where
  "Lab_to_XYZ_vectorise CIE_E CIE_K Lab illuminant =
     (let shape = as_shape Lab
      in case as_array3 Lab of Inl e \<Rightarrow> Inl e | Inr Lab \<Rightarrow>
         case xy_to_XYZ_vectorise illuminant of Inl e \<Rightarrow> Inl e | Inr XYZ_r \<Rightarrow>
           let XYZ_r = rows3 (np_resize (elems XYZ_r) (3 * length Lab))
           in np_reshape
                (flat3 (map (\<lambda>((L, a, b), (X_r, Y_r, Z_r)).
                   let f_y = (L + 16) / 116;
                       f_x = a / 500 + f_y;
                       f_z = f_y - b / 200;
                       x_r = (if f_x ^ 3 > CIE_E then Fin (f_x ^ 3)
                              else np_divide (116 * f_x - 16) CIE_K);
                       y_r = (if L > CIE_K * CIE_E then Fin (((L + 16) / 116) ^ 3)
                              else np_divide L CIE_K);
                       z_r = (if f_z ^ 3 > CIE_E then Fin (f_z ^ 3)
                              else np_divide (116 * f_z - 16) CIE_K)
                   in (fmul x_r (Fin X_r), fmul y_r (Fin Y_r), fmul z_r (Fin Z_r)))
                  (zip Lab XYZ_r)))
                (map int shape))"

section \<open>Wavelength to tristimulus values\<close>
















chapter \<open>Properties\<close>

section \<open>Arrays\<close>

lemma as_array3_colour1: "as_array3 (colour1 (a, b, c)) = Inr [(a, b, c)]"
  by (simp add: as_array3_def colour1_def)

lemma as_shape_colour1: "as_shape (colour1 (a, b, c)) = [3]"
  by (simp add: as_shape_def colour1_def)

lemma np_reshape_single: "np_reshape [x] (auto_axis [3]) = Inr \<lparr> dims = [1], elems = [x] \<rparr>"
  by (simp add: np_reshape_def auto_axis_def resolve_shape_def)

section \<open>The branches of the CIE D formula\<close>

lemma CIE_D_x_low_finite: "T \<noteq> 0 \<Longrightarrow> CIE_D_x_low T = Fin (poly_low T)"
  by (simp add: CIE_D_x_low_def poly_low_def np_divide_def)

lemma CIE_D_x_high_finite: "T \<noteq> 0 \<Longrightarrow> CIE_D_x_high T = Fin (poly_high T)"
  by (simp add: CIE_D_x_high_def poly_high_def np_divide_def)

lemma poly_differ_7000: "poly_low 7000 \<noteq> poly_high 7000"
  by (simp add: poly_low_def poly_high_def)

text \<open>
  C5. Every temperature of the query in [4000, 7000] gets its x from the low-temperature
  cubic, every temperature above 7000 from the high-temperature cubic, and 7000 itself
  from the low-temperature one (the two cubics differ there, so the choice is observable).
\<close>

theorem CCT_to_xy_CIE_D_branches:
  assumes "i < length CCT"
  shows "(4000 \<le> CCT ! i \<and> CCT ! i \<le> 7000 \<longrightarrow>
            fst (result_xy (CCT_to_xy_CIE_D_vectorise CCT) ! i) = Fin (poly_low (CCT ! i)))
       \<and> (CCT ! i > 7000 \<longrightarrow>
            fst (result_xy (CCT_to_xy_CIE_D_vectorise CCT) ! i) = Fin (poly_high (CCT ! i)))
       \<and> (CCT ! i = 7000 \<longrightarrow>
            fst (result_xy (CCT_to_xy_CIE_D_vectorise CCT) ! i) = Fin (poly_low 7000)
          \<and> fst (result_xy (CCT_to_xy_CIE_D_vectorise CCT) ! i) \<noteq> Fin (poly_high 7000))"
  using assms poly_differ_7000
  by (simp add: CCT_to_xy_CIE_D_vectorise_def CIE_D_x_def Let_def
      CIE_D_x_low_finite CIE_D_x_high_finite)

theorem CCT_to_xy_CIE_D_branches_witness:
  "fst (result_xy (CCT_to_xy_CIE_D_vectorise [5000, 7000, 8000]) ! 0) = Fin (poly_low 5000)
 \<and> fst (result_xy (CCT_to_xy_CIE_D_vectorise [5000, 7000, 8000]) ! 1) = Fin (poly_low 7000)
 \<and> fst (result_xy (CCT_to_xy_CIE_D_vectorise [5000, 7000, 8000]) ! 1) \<noteq> Fin (poly_high 7000)
 \<and> fst (result_xy (CCT_to_xy_CIE_D_vectorise [5000, 7000, 8000]) ! 2) = Fin (poly_high 8000)"
  using CCT_to_xy_CIE_D_branches [of 0 "[5000, 7000, 8000]"]
    CCT_to_xy_CIE_D_branches [of 1 "[5000, 7000, 8000]"]
    CCT_to_xy_CIE_D_branches [of 2 "[5000, 7000, 8000]"]
  by (simp add: poly_differ_7000)

section \<open>CIE 1994: defaults and explicit flags\<close>

lemma delta_E_CIE1994_same_flag:
  "delta_E_CIE1994_vectorise (colour1 Lab1) (colour1 Lab2) (Some t) =
     Inr \<lparr> dims = [1], elems = [delta_E_CIE1994 Lab1 Lab2 (Some t)] \<rparr>"
  by (cases Lab1; cases Lab2)
     (simp add: delta_E_CIE1994_vectorise_def delta_E_CIE1994_def as_array3_colour1
        broadcast_rows_def as_shape_colour1 np_reshape_single Let_def)

lemma delta_E_CIE1994_default_reference:
  "delta_E_CIE1994 (1, 0, 0) (0, 0, 0) None = Fin 1"
  by (simp add: delta_E_CIE1994_def np_divide_def np_sqrt_def fsquare_def)

lemma sqrt_quarter: "sqrt (1 / 4) = 1 / 2"
  by (rule real_sqrt_unique) (simp_all add: power2_eq_square)

lemma delta_E_CIE1994_default_vectorise:
  "delta_E_CIE1994_vectorise (colour1 (1, 0, 0)) (colour1 (0, 0, 0)) None =
     Inr \<lparr> dims = [1], elems = [Fin (1 / 2)] \<rparr>"
  by (simp add: delta_E_CIE1994_vectorise_def as_array3_colour1 broadcast_rows_def
      as_shape_colour1 np_reshape_single np_divide_def np_sqrt_def fsquare_def sqrt_quarter)

text \<open>
  C10. Called without \<open>textiles\<close>, the vectorised function and the reference differ on
  some pair of colours, since the first defaults to the textiles factors and the second to
  the graphic-arts ones; called with the same explicit flag they agree on every pair.
\<close>

theorem delta_E_CIE1994_not_default_equivalent:
  "(\<exists>Lab1 Lab2. delta_E_CIE1994_vectorise (colour1 Lab1) (colour1 Lab2) None \<noteq>
       Inr \<lparr> dims = [1], elems = [delta_E_CIE1994 Lab1 Lab2 None] \<rparr>)
 \<and> (\<forall>t Lab1 Lab2. delta_E_CIE1994_vectorise (colour1 Lab1) (colour1 Lab2) (Some t) =
       Inr \<lparr> dims = [1], elems = [delta_E_CIE1994 Lab1 Lab2 (Some t)] \<rparr>)"
proof
  have "delta_E_CIE1994_vectorise (colour1 (1, 0, 0)) (colour1 (0, 0, 0)) None \<noteq>
        Inr \<lparr> dims = [1], elems = [delta_E_CIE1994 (1, 0, 0) (0, 0, 0) None] \<rparr>"
    by (simp add: delta_E_CIE1994_default_reference delta_E_CIE1994_default_vectorise)
  then show "\<exists>Lab1 Lab2. delta_E_CIE1994_vectorise (colour1 Lab1) (colour1 Lab2) None \<noteq>
       Inr \<lparr> dims = [1], elems = [delta_E_CIE1994 Lab1 Lab2 None] \<rparr>"
    by blast
next
  show "\<forall>t Lab1 Lab2. delta_E_CIE1994_vectorise (colour1 Lab1) (colour1 Lab2) (Some t) =
       Inr \<lparr> dims = [1], elems = [delta_E_CIE1994 Lab1 Lab2 (Some t)] \<rparr>"
    by (simp add: delta_E_CIE1994_same_flag)
qed

section \<open>Indexing a spectral power distribution\<close>

lemma dict_getitems_present:
  "set ws \<subseteq> fst ` set d \<Longrightarrow> dict_getitems d ws = Inr (map (\<lambda>w. the (map_of d w)) ws)"
proof (induction ws)
  case Nil
  then show ?case by simp
next
  case (Cons w ws)
  from Cons.prems have "w \<in> fst ` set d" by simp
  then obtain v where "map_of d w = Some v"
    by (metis domD dom_map_of_conv_image_fst)
  with Cons show ?case by (simp add: dict_getitem_def)
qed

lemma slice_indices_range:
  assumes "i \<le> j" "j \<le> n"
  shows "slice_indices n (Some (int i)) (Some (int j)) None = Inr (map (\<lambda>k. int (i + k)) [0..<j - i])"
proof -
  have "nat ((int j - int i - 1) div 1 + 1) = j - i" if "i < j"
    using that by simp
  then show ?thesis
    using assms by (auto simp: slice_indices_def Let_def min_def)
qed

lemma map_nth_take_drop:
  "i + m \<le> length xs \<Longrightarrow> map (\<lambda>k. xs ! (i + k)) [0..<m] = take m (drop i xs)"
  by (rule nth_equalityI) simp_all

lemma getitem_slice_positional:
  assumes "i \<le> j" "j \<le> length xs"
  shows "getitem_slice xs (Some (int i)) (Some (int j)) None = Inr (take (j - i) (drop i xs))"
  using assms
  by (simp add: getitem_slice_def slice_indices_range o_def map_nth_take_drop del: of_nat_add)

lemma values_spd_example: "values_spd spd_example = [49.67, 69.59, 81.73, 88.19]"
  by (simp add: values_spd_def wavelengths_def spd_example_def)

text \<open>
  C2. Indexing the example distribution at 520 returns the stored 69.59; and for every
  distribution, whatever the type of its values, indexing at a wavelength that is a key
  returns the value stored under it, unchanged.
\<close>

theorem getitem_exact_sample:
  "SpectralPowerDistribution_getitem spd_example (Numeric 520) = Inr (Scalar 69.59)
 \<and> (\<forall>spd w v. map_of (data spd) w = Some v \<longrightarrow>
        SpectralPowerDistribution_getitem spd (Numeric w) = Inr (Scalar v))"
  by (simp add: dict_getitem_def spd_example_def)

theorem getitem_exact_sample_witness:
  "SpectralPowerDistribution_getitem \<lparr> name = ''S'', data = [(1 :: real, ''a''), (2, ''b'')] \<rparr>
     (Numeric 2) = Inr (Scalar ''b'')"
proof -
  have "map_of (data \<lparr> name = ''S'', data = [(1 :: real, ''a''), (2, ''b'')] \<rparr>) 2 = Some ''b''"
    by simp
  then show ?thesis
    by (rule getitem_exact_sample [THEN conjunct2, rule_format])
qed

text \<open>
  C6. Indexing is by wavelength for a number and for an iterable of numbers, and by
  position in the ordered values for a slice: a key gives its stored value, keys give the
  parallel array of their stored values, and the slice \<open>i:j\<close> gives the values at positions
  \<open>i\<close> to \<open>j - 1\<close>. On the example, \<open>spd[510:520]\<close> is empty although 510 and 520 are keys,
  and \<open>spd[0:2]\<close> holds the first two values although 0 is not a key.
\<close>

theorem getitem_asymmetric:
  "(\<forall>w v. map_of (data spd) w = Some v \<longrightarrow>
       SpectralPowerDistribution_getitem spd (Numeric w) = Inr (Scalar v))
 \<and> (\<forall>ws. set ws \<subseteq> fst ` set (data spd) \<longrightarrow>
       SpectralPowerDistribution_getitem spd (Iterable ws) =
         Inr (Array (map (\<lambda>w. the (map_of (data spd) w)) ws)))
 \<and> (\<forall>i j. i \<le> j \<and> j \<le> length (values_spd spd) \<longrightarrow>
       SpectralPowerDistribution_getitem spd (Slice (Some (int i)) (Some (int j)) None) =
         Inr (Array (take (j - i) (drop i (values_spd spd)))))
 \<and> SpectralPowerDistribution_getitem spd_example (Slice (Some 510) (Some 520) None) =
       Inr (Array [])
 \<and> SpectralPowerDistribution_getitem spd_example (Numeric 0) = Inl (KeyError 0)"
proof (intro conjI allI impI)
  fix w v assume "map_of (data spd) w = Some v"
  then show "SpectralPowerDistribution_getitem spd (Numeric w) = Inr (Scalar v)"
    by (simp add: dict_getitem_def)
next
  fix ws assume "set ws \<subseteq> fst ` set (data spd)"
  then show "SpectralPowerDistribution_getitem spd (Iterable ws) =
         Inr (Array (map (\<lambda>w. the (map_of (data spd) w)) ws))"
    by (simp add: dict_getitems_present)
next
  fix i j assume "i \<le> j \<and> j \<le> length (values_spd spd)"
  then show "SpectralPowerDistribution_getitem spd (Slice (Some (int i)) (Some (int j)) None) =
         Inr (Array (take (j - i) (drop i (values_spd spd))))"
    by (simp add: getitem_slice_positional)
next
  show "SpectralPowerDistribution_getitem spd_example (Slice (Some 510) (Some 520) None) =
       Inr (Array [])"
    by (simp add: getitem_slice_def slice_indices_def values_spd_example)
next
  show "SpectralPowerDistribution_getitem spd_example (Numeric 0) = Inl (KeyError 0)"
    by (simp add: dict_getitem_def spd_example_def)
qed

theorem getitem_asymmetric_witness:
  "SpectralPowerDistribution_getitem spd_example (Numeric 510) = Inr (Scalar 49.67)
 \<and> SpectralPowerDistribution_getitem spd_example (Iterable [510, 520]) =
       Inr (Array [49.67, 69.59])
 \<and> SpectralPowerDistribution_getitem spd_example (Slice (Some 0) (Some 2) None) =
       Inr (Array [49.67, 69.59])"
proof -
  have a: "map_of (data spd_example) 510 = Some 49.67"
    by (simp add: spd_example_def)
  have b: "set [510, 520] \<subseteq> fst ` set (data spd_example)"
    by (simp add: spd_example_def)
  have c: "(0::nat) \<le> 2 \<and> 2 \<le> length (values_spd spd_example)"
    by (simp add: values_spd_example)
  from getitem_asymmetric [of spd_example, THEN conjunct1, rule_format, OF a]
    getitem_asymmetric [of spd_example, THEN conjunct2, THEN conjunct1, rule_format, OF b]
    getitem_asymmetric [of spd_example, THEN conjunct2, THEN conjunct2, THEN conjunct1,
      rule_format, OF c]
  show ?thesis
    by (simp add: values_spd_example) (simp add: spd_example_def)
qed

section \<open>Degenerate inputs of the xyY conversions\<close>

lemma np_reshape_colour1: "np_reshape [a, b, c] (auto_axis [3]) = Inr (colour1 (a, b, c))"
  by (simp add: np_reshape_def auto_axis_def resolve_shape_def colour1_def)

lemma np_reshape_colour1_same: "np_reshape [a, b, c] (map int [3]) = Inr (colour1 (a, b, c))"
  by (simp add: np_reshape_def resolve_shape_def colour1_def)

text \<open>
  C3. With chromaticity \<open>y\<close> exactly 0 the conversion of \<open>[x, 0, Y]\<close> returns the zero
  vector, for every \<open>x\<close> and \<open>Y\<close>, and it returns: the result is not an error.
\<close>

theorem xyY_to_XYZ_degenerate:
  "xyY_to_XYZ_vectorise (colour1 (x, 0, Y)) = Inr (colour1 (0, 0, 0))"
  by (simp add: xyY_to_XYZ_vectorise_def as_array3_colour1 as_shape_colour1 np_reshape_colour1)

lemma as_array2_chroma1: "as_array2 (chroma1 (a, b)) = Inr [(a, b)]"
  by (simp add: as_array2_def chroma1_def)

section \<open>Looking up the adaptation transform\<close>

lemma broadcast_rows_single: "broadcast_rows [x] [y] = Inr [(x, y)]"
  by (simp add: broadcast_rows_def)

lemma adaptation_matrix_unregistered:
  "registry_get T transform = None \<Longrightarrow>
   chromatic_adaptation_matrix_VonKries_vectorise T XYZ_w XYZ_wr transform =
     Inl (TransformNotDefined transform (registry_keys T))"
  by (simp add: chromatic_adaptation_matrix_VonKries_vectorise_def)

lemma adaptation_matrix_registered_error:
  "registry_get T transform = Some M \<Longrightarrow>
   chromatic_adaptation_matrix_VonKries_vectorise T XYZ_w XYZ_wr transform \<noteq>
     Inl (TransformNotDefined n ks)"
  by (auto simp: chromatic_adaptation_matrix_VonKries_vectorise_def as_array3_def
      broadcast_rows_def np_linalg_inv_def Let_def split: sum.splits)

lemma adaptation_matrix_single:
  assumes "registry_get T transform = Some M" "det3 M \<noteq> 0"
  shows "chromatic_adaptation_matrix_VonKries_vectorise T (colour1 w) (colour1 wr) transform =
     Inr [fmat_mul
            (fmat_mul (lift_mat (scale_mat (1 / det3 M) (adjugate3 M)))
               (row_as_diagonal
                  (case (mat_vec M wr, mat_vec M w) of ((r', g', b'), (r, g, b)) \<Rightarrow>
                     (np_divide r' r, np_divide g' g, np_divide b' b))))
            (lift_mat M)]"
  using assms
  by (cases w; cases wr)
     (simp add: chromatic_adaptation_matrix_VonKries_vectorise_def as_array3_colour1
        broadcast_rows_single np_linalg_inv_def Let_def split: prod.splits)

text \<open>
  C7. For a name that is not registered the computation fails with the error that carries
  the name and the registered names, whatever the white-point arrays are (even ones that
  could not be reshaped): the failure precedes all array work. For a registered name that
  error never occurs, and with an invertible registered matrix the matrix of two white
  points is returned.
\<close>

theorem adaptation_matrix_lookup:
  "(registry_get T transform = None \<longrightarrow>
      (\<forall>XYZ_w XYZ_wr.
         chromatic_adaptation_matrix_VonKries_vectorise T XYZ_w XYZ_wr transform =
           Inl (TransformNotDefined transform (registry_keys T))))
 \<and> (registry_get T transform \<noteq> None \<longrightarrow>
      (\<forall>XYZ_w XYZ_wr n ks.
         chromatic_adaptation_matrix_VonKries_vectorise T XYZ_w XYZ_wr transform \<noteq>
           Inl (TransformNotDefined n ks)))
 \<and> (\<forall>M. registry_get T transform = Some M \<and> det3 M \<noteq> 0 \<longrightarrow>
      (\<forall>w wr. \<exists>cat.
         chromatic_adaptation_matrix_VonKries_vectorise T (colour1 w) (colour1 wr) transform =
           Inr [cat]))"
  by (auto simp: adaptation_matrix_unregistered adaptation_matrix_registered_error
      adaptation_matrix_single)

lemma lower_examples:
  "lower ''Bradford'' = ''bradford''" "lower ''BRADFORD'' = ''bradford''"
  "lower ''XYZ Scaling'' = ''xyz scaling''" "lower ''Sharp'' = ''sharp''"
  by code_simp+

lemma example_transforms_eq:
  "example_transforms = [(''bradford'', bradford), (''xyz scaling'', identity3)]"
  by (simp add: example_transforms_def CaseInsensitiveMapping_def lower_examples)

lemma registry_get_Sharp: "registry_get example_transforms ''Sharp'' = None"
  by (simp add: registry_get_def example_transforms_eq lower_examples)

lemma registry_get_BRADFORD: "registry_get example_transforms ''BRADFORD'' = Some bradford"
  by (simp add: registry_get_def example_transforms_eq lower_examples)

lemma registry_get_Bradford: "registry_get example_transforms ''Bradford'' = Some bradford"
  by (simp add: registry_get_def example_transforms_eq lower_examples)

lemma registry_keys_example: "registry_keys example_transforms = [''bradford'', ''xyz scaling'']"
  by (simp add: registry_keys_def example_transforms_eq)

lemma det3_bradford: "det3 bradford \<noteq> 0"
  by (simp add: bradford_def)

theorem adaptation_matrix_lookup_witness:
  "chromatic_adaptation_matrix_VonKries_vectorise example_transforms
       \<lparr> dims = [2], elems = [1, 2] \<rparr> \<lparr> dims = [2], elems = [1, 2] \<rparr> ''Sharp'' =
     Inl (TransformNotDefined ''Sharp'' [''bradford'', ''xyz scaling''])
 \<and> chromatic_adaptation_matrix_VonKries_vectorise example_transforms
       \<lparr> dims = [2], elems = [1, 2] \<rparr> \<lparr> dims = [2], elems = [1, 2] \<rparr> ''BRADFORD'' \<noteq>
     Inl (TransformNotDefined ''BRADFORD'' [''bradford'', ''xyz scaling''])
 \<and> (\<exists>cat. chromatic_adaptation_matrix_VonKries_vectorise example_transforms
       (colour1 (0.9642, 1, 0.8249)) (colour1 (0.9505, 1, 1.0888)) ''BRADFORD'' = Inr [cat])"
  using adaptation_matrix_lookup [of example_transforms "''Sharp''"]
    adaptation_matrix_lookup [of example_transforms "''BRADFORD''"]
  by (simp add: registry_get_Sharp registry_get_BRADFORD registry_keys_example det3_bradford)

section \<open>Shape preservation\<close>

lemma length_flat3: "length (flat3 rs) = 3 * length rs"
  by (induction rs rule: flat3.induct) simp_all

lemma length_rows3: "length (rows3 xs) = length xs div 3"
  by (induction xs rule: rows3.induct) simp_all

lemma resolve_shape_same: "prod_list s = n \<Longrightarrow> resolve_shape n (map int s) = Some s"
proof -
  assume n: "prod_list s = n"
  have f1: "filter (\<lambda>d. d \<noteq> - 1) (map int s) = map int s"
    by (induction s) simp_all
  have f2: "filter (\<lambda>d. d = - 1) (map int s) = []"
    by (induction s) simp_all
  have f3: "\<not> list_ex (\<lambda>d. d < - 1) (map int s)"
    by (induction s) simp_all
  have f4: "map nat (map int s) = s"
    by (induction s) simp_all
  show ?thesis
    using n f3 by (simp add: resolve_shape_def f1 f2 f4 del: map_map)
qed

lemma np_reshape_same:
  "length xs = prod_list s \<Longrightarrow> np_reshape xs (map int s) = Inr \<lparr> dims = s, elems = xs \<rparr>"
  by (simp add: np_reshape_def resolve_shape_same)

lemma resolve_shape_dims: "resolve_shape n (map int s) = Some s' \<Longrightarrow> s' = s"
proof -
  assume a: "resolve_shape n (map int s) = Some s'"
  have f2: "filter (\<lambda>d. d = - 1) (map int s) = []"
    by (induction s) simp_all
  have f4: "map nat (map int s) = s"
    by (induction s) simp_all
  show ?thesis
    using a by (simp add: resolve_shape_def f2 f4 Let_def del: map_map split: if_splits)
qed

lemma np_reshape_dims: "np_reshape xs (map int s) = Inr y \<Longrightarrow> dims y = s"
  by (auto simp: np_reshape_def split: option.splits dest: resolve_shape_dims)

lemma broadcast_rows_one: "broadcast_rows xs [c] = Inr (map (\<lambda>x. (x, c)) xs)"
proof (cases xs)
  case Nil
  then show ?thesis by (simp add: broadcast_rows_def)
next
  case (Cons x ys)
  then show ?thesis by (cases ys) (simp_all add: broadcast_rows_def)
qed

lemma wf_channels3:
  assumes "wf_array x" "dims x = lead @ [3]"
  shows "length (elems x) mod 3 = 0" "3 * (length (elems x) div 3) = prod_list (dims x)"
  using assms by (simp_all add: wf_array_def)

lemma xyY_to_XYZ_single:
  "xyY_to_XYZ_vectorise (colour1 (x, y, Y)) =
     Inr (colour1 (if y = 0 then (y, y, y) else (x * Y / y, Y, (1 - x - y) * Y / y)))"
  by (simp add: xyY_to_XYZ_vectorise_def as_array3_colour1 as_shape_colour1 np_reshape_colour1)

lemma xy_to_XYZ_single:
  "xy_to_XYZ_vectorise (chroma1 (x, y)) =
     Inr (colour1 (if y = 0 then (0, 0, 0) else (x / y, 1, (1 - x - y) / y)))"
proof -
  have "np_reshape (flat3 [(x, y, 1)]) (auto_axis (as_shape (chroma1 (x, y)))) =
      Inr (colour1 (x, y, 1))"
    by (simp add: np_reshape_def auto_axis_def resolve_shape_def colour1_def as_shape_def
        chroma1_def)
  then show ?thesis
    by (simp add: xy_to_XYZ_vectorise_def as_array2_chroma1 xyY_to_XYZ_single)
qed

lemma length_apply_transfer: "length (apply_transfer tf rows) = length rows"
  by (simp add: apply_transfer_def split: option.splits)

lemma adaptation_matrix_exists:
  assumes "registry_get T transform = Some B" "det3 B \<noteq> 0"
  shows "\<exists>c. chromatic_adaptation_matrix_VonKries_vectorise T (colour1 w) (colour1 wr) transform
           = Inr [c]"
  using adaptation_matrix_single [OF assms] by blast

lemma XYZ_to_RGB_returns:
  assumes "wf_array x" "dims x = lead @ [3]" "registry_get T transform = Some B" "det3 B \<noteq> 0"
  shows "\<exists>y. XYZ_to_RGB_vectorise T x (chroma1 w1) (chroma1 w2) M transform tf = Inr y
           \<and> dims y = dims x"
proof -
  obtain x1 y1 x2 y2 where w: "w1 = (x1, y1)" "w2 = (x2, y2)"
    by (cases w1; cases w2) blast
  obtain W1 where W1: "xy_to_XYZ_vectorise (chroma1 w1) = Inr (colour1 W1)"
    unfolding w using xy_to_XYZ_single by blast
  obtain W2 where W2: "xy_to_XYZ_vectorise (chroma1 w2) = Inr (colour1 W2)"
    unfolding w using xy_to_XYZ_single by blast
  obtain c where c: "chromatic_adaptation_matrix_VonKries_vectorise T (colour1 W1) (colour1 W2)
      transform = Inr [c]"
    using adaptation_matrix_exists [OF assms(3,4)] by blast
  have a: "as_array3 x = Inr (rows3 (elems x))"
    using wf_channels3(1) [OF assms(1,2)] by (simp add: as_array3_def)
  have len: "3 * length (rows3 (elems x)) = prod_list (dims x)"
    using wf_channels3(2) [OF assms(1,2)] by (simp add: length_rows3)
  show ?thesis
    by (simp add: XYZ_to_RGB_vectorise_def a W1 W2 c broadcast_rows_one as_shape_def Let_def
        np_reshape_same length_flat3 length_apply_transfer len)
qed

lemma RGB_to_XYZ_returns:
  assumes "wf_array x" "dims x = lead @ [3]" "registry_get T transform = Some B" "det3 B \<noteq> 0"
  shows "\<exists>y. RGB_to_XYZ_vectorise T x (chroma1 w1) (chroma1 w2) M transform tf = Inr y
           \<and> dims y = dims x"
proof -
  obtain x1 y1 x2 y2 where w: "w1 = (x1, y1)" "w2 = (x2, y2)"
    by (cases w1; cases w2) blast
  obtain W1 where W1: "xy_to_XYZ_vectorise (chroma1 w1) = Inr (colour1 W1)"
    unfolding w using xy_to_XYZ_single by blast
  obtain W2 where W2: "xy_to_XYZ_vectorise (chroma1 w2) = Inr (colour1 W2)"
    unfolding w using xy_to_XYZ_single by blast
  obtain c where c: "chromatic_adaptation_matrix_VonKries_vectorise T (colour1 W1) (colour1 W2)
      transform = Inr [c]"
    using adaptation_matrix_exists [OF assms(3,4)] by blast
  have a: "as_array3 x = Inr (rows3 (elems x))"
    using wf_channels3(1) [OF assms(1,2)] by (simp add: as_array3_def)
  have len: "3 * length (rows3 (elems x)) = prod_list (dims x)"
    using wf_channels3(2) [OF assms(1,2)] by (simp add: length_rows3)
  show ?thesis
    by (simp add: RGB_to_XYZ_vectorise_def a W1 W2 c broadcast_rows_one as_shape_def Let_def
        np_reshape_same length_flat3 length_apply_transfer len)
qed

lemma length_np_resize: "length (np_resize xs n) = n"
  by (simp add: np_resize_def)

lemma Lab_to_XYZ_returns:
  assumes "wf_array l" "dims l = lead @ [3]"
  shows "\<exists>y. Lab_to_XYZ_vectorise E K l (chroma1 w) = Inr y \<and> dims y = dims l"
proof -
  obtain x1 y1 where w: "w = (x1, y1)"
    by (cases w) blast
  obtain W where W: "xy_to_XYZ_vectorise (chroma1 w) = Inr (colour1 W)"
    unfolding w using xy_to_XYZ_single by blast
  have a: "as_array3 l = Inr (rows3 (elems l))"
    using wf_channels3(1) [OF assms] by (simp add: as_array3_def)
  have len: "3 * length (rows3 (elems l)) = prod_list (dims l)"
    using wf_channels3(2) [OF assms] by (simp add: length_rows3)
  have "length (rows3 (np_resize (elems (colour1 W)) (3 * length (rows3 (elems l))))) =
      length (rows3 (elems l))"
    by (simp add: length_rows3 length_np_resize)
  then show ?thesis
    by (simp add: Lab_to_XYZ_vectorise_def a W as_shape_def Let_def np_reshape_same
        length_flat3 len)
qed

lemma XYZ_to_RGB_dims:
  "XYZ_to_RGB_vectorise T x i1 i2 M transform tf = Inr y \<Longrightarrow> dims y = dims x"
  by (auto simp: XYZ_to_RGB_vectorise_def as_shape_def Let_def split: sum.splits
      dest: np_reshape_dims)

lemma RGB_to_XYZ_dims:
  "RGB_to_XYZ_vectorise T x i1 i2 M transform tf = Inr y \<Longrightarrow> dims y = dims x"
  by (auto simp: RGB_to_XYZ_vectorise_def as_shape_def Let_def split: sum.splits
      dest: np_reshape_dims)

lemma Lab_to_XYZ_dims:
  "Lab_to_XYZ_vectorise E K l i = Inr y \<Longrightarrow> dims y = dims l"
  by (auto simp: Lab_to_XYZ_vectorise_def as_shape_def Let_def split: sum.splits
      dest: np_reshape_dims)

text \<open>
  C8. For the conversions \<open>XYZ_to_RGB\<close>, \<open>RGB_to_XYZ\<close> and \<open>Lab_to_XYZ\<close>, and an input
  whose trailing dimension is the three channels, of any rank (a single colour, a batch,
  an image), the conversion returns an array of the same shape: the leading dimensions
  are kept and the trailing one is the three output channels. The illuminants are single
  chromaticities and the adaptation transform is registered with an invertible matrix.
\<close>

theorem shape_preservation:
  assumes "wf_array x" "dims x = lead @ [3]"
    and "wf_array l" "dims l = lead' @ [3]"
    and "registry_get T transform = Some B" "det3 B \<noteq> 0"
  shows "(\<exists>y. XYZ_to_RGB_vectorise T x (chroma1 w1) (chroma1 w2) M transform tf = Inr y
            \<and> dims y = lead @ [3])
       \<and> (\<exists>y. RGB_to_XYZ_vectorise T x (chroma1 w1) (chroma1 w2) M transform tf = Inr y
            \<and> dims y = lead @ [3])
       \<and> (\<exists>y. Lab_to_XYZ_vectorise E K l (chroma1 w) = Inr y \<and> dims y = lead' @ [3])"
  using XYZ_to_RGB_returns [OF assms(1,2,5,6), of w1 w2 M tf]
    RGB_to_XYZ_returns [OF assms(1,2,5,6), of w1 w2 M tf]
    Lab_to_XYZ_returns [OF assms(3,4), of E K w] assms(2,4)
  by simp

theorem shape_preservation_witness:
  "(\<exists>y. XYZ_to_RGB_vectorise example_transforms
          \<lparr> dims = [1, 2, 3], elems = [Fin 1, Fin 2, Fin 3, Fin 4, Fin 5, Fin 6] \<rparr>
          (chroma1 (0.34567, 0.35850)) (chroma1 (0.31271, 0.32902)) identity3 ''Bradford'' None
        = Inr y \<and> dims y = [1, 2, 3])
 \<and> (\<exists>y. RGB_to_XYZ_vectorise example_transforms
          \<lparr> dims = [1, 2, 3], elems = [Fin 1, Fin 2, Fin 3, Fin 4, Fin 5, Fin 6] \<rparr>
          (chroma1 (0.34567, 0.35850)) (chroma1 (0.31271, 0.32902)) identity3 ''Bradford'' None
        = Inr y \<and> dims y = [1, 2, 3])
 \<and> (\<exists>y. Lab_to_XYZ_vectorise (216 / 24389) (24389 / 27) \<lparr> dims = [3], elems = [50, 0, 0] \<rparr>
          (chroma1 (0.34567, 0.35850)) = Inr y \<and> dims y = [3])"
proof -
  let ?x = "\<lparr> dims = [1, 2, 3], elems = [Fin 1, Fin 2, Fin 3, Fin 4, Fin 5, Fin 6] \<rparr>"
  let ?l = "\<lparr> dims = [3], elems = [50 :: real, 0, 0] \<rparr>"
  have 1: "wf_array ?x" by (simp add: wf_array_def)
  have 2: "dims ?x = [1, 2] @ [3]" by simp
  have 3: "wf_array ?l" by (simp add: wf_array_def)
  have 4: "dims ?l = [] @ [3]" by simp
  from shape_preservation [OF 1 2 3 4 registry_get_Bradford det3_bradford]
  show ?thesis by simp
qed

section \<open>The zero test of XYZ to xyY\<close>

lemma rows3_flat3: "rows3 (flat3 rs) = rs"
  by (induction rs rule: flat3.induct) simp_all

lemma rows3_append: "length xs mod 3 = 0 \<Longrightarrow> rows3 (xs @ ys) = rows3 xs @ rows3 ys"
  by (induction xs rule: rows3.induct) simp_all

lemma rows3_map_upt:
  "rows3 (map f [0..<3 * n]) = map (\<lambda>r. (f (3 * r), f (3 * r + 1), f (3 * r + 2))) [0..<n]"
proof (induction n)
  case 0
  then show ?case by simp
next
  case (Suc n)
  have "3 * Suc n = Suc (Suc (Suc (3 * n)))"
    by simp
  then have "[0..<3 * Suc n] = [0..<3 * n] @ [3 * n, 3 * n + 1, 3 * n + 2]"
    by (simp only: upt_Suc_append le0 append_assoc) simp
  then show ?case
    using Suc by (simp add: rows3_append)
qed

lemma np_resize_pair:
  "rows3 (np_resize [a, b] (3 * n)) =
     map (\<lambda>r. if even r then (a, b, a) else (b, a, b)) [0..<n]"
proof -
  have n: "[a, b] ! (k mod Suc (Suc 0)) = (if even k then a else b)" for k :: nat
  proof (cases "even k")
    case True
    then have "k mod Suc (Suc 0) = 0" by presburger
    with True show ?thesis by simp
  next
    case False
    then have "k mod Suc (Suc 0) = 1" by presburger
    with False show ?thesis by simp
  qed
  show ?thesis
    by (simp add: np_resize_def rows3_map_upt n del: upt_Suc)
qed


lemma elems_chroma1: "elems (chroma1 (a, b)) = [a, b]"
  by (simp add: chroma1_def)

text \<open>
  C9. The zero test of \<open>XYZ_to_xyY\<close> is per component, for every input: whatever the
  other components of a colour are, a first component that is 0 is replaced by a
  coordinate of the illuminant, a second component that is 0 likewise, and only a
  non-zero component gives the quotient by \<open>X + Y + Z\<close>; the third output is \<open>Y\<close> in
  every case. So the substitution is not limited to \<open>X = Y = Z = 0\<close>. The illuminant is
  resized to the shape of the input by cycling through its two coordinates, so the rows
  of even index get \<open>(x, y)\<close> in the first two slots and the rows of odd index \<open>(y, x)\<close>.
\<close>

theorem XYZ_to_xyY_elementwise_zero_test:
  assumes "wf_array XYZ" "dims XYZ = lead @ [3]"
    and "r < length (rows3 (elems XYZ))" "rows3 (elems XYZ) ! r = (X, Y, Z)"
  shows "\<exists>xyY. XYZ_to_xyY_vectorise XYZ (chroma1 (xi, yi)) = Inr xyY
           \<and> dims xyY = dims XYZ
           \<and> rows3 (elems xyY) ! r =
               (if X = 0 then Fin (if even r then xi else yi) else np_divide X (X + Y + Z),
                if Y = 0 then Fin (if even r then yi else xi) else np_divide Y (X + Y + Z),
                Fin Y)"
proof -
  let ?rows = "rows3 (elems XYZ)"
  let ?ill = "rows3 (np_resize (elems (chroma1 (xi, yi))) (3 * length ?rows))"
  let ?h = "\<lambda>((X, Y, Z), (i0, i1, i2)).
       (if X = 0 then Fin i0 else np_divide X (X + Y + Z),
        if Y = 0 then Fin i1 else np_divide Y (X + Y + Z),
        if Z = 0 then Fin Y else Fin Y)"
  let ?out = "map ?h (zip ?rows ?ill)"
  have a: "as_array3 XYZ = Inr ?rows"
    using wf_channels3(1) [OF assms(1,2)] by (simp add: as_array3_def)
  have len: "3 * length ?rows = prod_list (dims XYZ)"
    using wf_channels3(2) [OF assms(1,2)] by (simp add: length_rows3)
  have ill: "?ill = map (\<lambda>r. if even r then (xi, yi, xi) else (yi, xi, yi)) [0..<length ?rows]"
    by (simp only: elems_chroma1 np_resize_pair)
  then have lout: "length ?out = length ?rows"
    by simp
  have "length (flat3 ?out) = 3 * length ?rows"
    by (simp only: length_flat3 lout)
  then have "length (flat3 ?out) = prod_list (dims XYZ)"
    using len by (rule trans)
  then have res: "np_reshape (flat3 ?out) (map int (dims XYZ)) =
      Inr \<lparr> dims = dims XYZ, elems = flat3 ?out \<rparr>"
    by (rule np_reshape_same)
  have run: "XYZ_to_xyY_vectorise XYZ (chroma1 (xi, yi)) =
      Inr \<lparr> dims = dims XYZ, elems = flat3 ?out \<rparr>"
    by (simp only: XYZ_to_xyY_vectorise_def a as_array2_chroma1 as_shape_def Let_def
        sum.case res)
  have "?out ! r = ?h (?rows ! r, ?ill ! r)"
    using assms(3) lout by simp
  also have "?ill ! r = (if even r then (xi, yi, xi) else (yi, xi, yi))"
    using assms(3) by (simp only: ill nth_map length_upt nth_upt) simp
  finally have row: "?out ! r =
      (if X = 0 then Fin (if even r then xi else yi) else np_divide X (X + Y + Z),
       if Y = 0 then Fin (if even r then yi else xi) else np_divide Y (X + Y + Z),
       Fin Y)"
    by (simp add: assms(4))
  show ?thesis
    using run row by (simp add: rows3_flat3)
qed

theorem XYZ_to_xyY_elementwise_zero_test_witness:
  "(\<exists>xyY. XYZ_to_xyY_vectorise \<lparr> dims = [2, 3], elems = [0, 1, 3, 1, 0, 3] \<rparr>
            (chroma1 (0.34567, 0.35850)) = Inr xyY
         \<and> dims xyY = [2, 3]
         \<and> rows3 (elems xyY) ! 0 = (Fin 0.34567, Fin (1 / 4), Fin 1))
 \<and> (\<exists>xyY. XYZ_to_xyY_vectorise \<lparr> dims = [2, 3], elems = [0, 1, 3, 1, 0, 3] \<rparr>
            (chroma1 (0.34567, 0.35850)) = Inr xyY
         \<and> dims xyY = [2, 3]
         \<and> rows3 (elems xyY) ! 1 = (Fin (1 / 4), Fin 0.34567, Fin 0))"
proof -
  let ?b = "\<lparr> dims = [2, 3], elems = [0 :: real, 1, 3, 1, 0, 3] \<rparr>"
  have 1: "wf_array ?b" by (simp add: wf_array_def)
  have 2: "dims ?b = [2] @ [3]" by simp
  have 3: "0 < length (rows3 (elems ?b))" "1 < length (rows3 (elems ?b))" by simp_all
  have 4: "rows3 (elems ?b) ! 0 = (0, 1, 3)" "rows3 (elems ?b) ! 1 = (1, 0, 3)" by simp_all
  from XYZ_to_xyY_elementwise_zero_test [OF 1 2 3(1) 4(1), of "0.34567" "0.35850"]
    XYZ_to_xyY_elementwise_zero_test [OF 1 2 3(2) 4(2), of "0.34567" "0.35850"]
  show ?thesis by (simp add: np_divide_def)
qed


section \<open>The round trip between XYZ and RGB\<close>

lemma fmat_vec_lift: "fmat_vec (lift_mat A) (lift_vec v) = lift_vec (mat_vec A v)"
  by (cases A rule: transpose3.cases; cases v) simp

lemma transpose3_lift: "transpose3 (lift_mat A) = lift_mat (transpose3 A)"
  by (cases A rule: transpose3.cases) simp

lemma fmat_mul_lift: "fmat_mul (lift_mat A) (lift_mat B) = lift_mat (mat_mul A B)"
  by (cases A rule: transpose3.cases; cases B rule: transpose3.cases) simp

lemma row_as_diagonal_lift: "row_as_diagonal (lift_vec d) = lift_mat (diag3 d)"
  by (cases d) simp





lemma mat_mul_identity3_right: "mat_mul A identity3 = A"
  by (cases A rule: transpose3.cases) (simp add: identity3_def)









lemma diag3_mul: "mat_mul (diag3 (a, b, c)) (diag3 (a', b', c')) = diag3 (a * a', b * b', c * c')"
  by simp

lemma diag3_one: "diag3 (1, 1, 1) = identity3"
  by (simp add: identity3_def)


lemma xy_to_XYZ_white: "xy_to_XYZ_vectorise (chroma1 w) = Inr (colour1 (white_XYZ w))"
  by (cases w) (simp add: xy_to_XYZ_single white_XYZ_def)

lemma as_array3_colour1_vec: "as_array3 (colour1 v) = Inr [v]"
  by (cases v) (simp add: as_array3_colour1)

lemma as_shape_colour1_vec: "as_shape (colour1 v) = [3]"
  by (cases v) (simp add: as_shape_colour1)

lemma np_reshape_colour1_vec: "np_reshape (flat3 [v]) [3] = Inr (colour1 v)"
  by (cases v) (simp add: np_reshape_colour1_same [simplified])

lemma adaptation_matrix_finite:
  assumes "registry_get T transform = Some B" "np_linalg_inv B = Inr B_inv"
    and "mat_vec B w = (r, g, b)" "r \<noteq> 0" "g \<noteq> 0" "b \<noteq> 0"
    and "mat_vec B wr = (r', g', b')"
  shows "chromatic_adaptation_matrix_VonKries_vectorise T (colour1 w) (colour1 wr) transform =
     Inr [lift_mat (mat_mul (mat_mul B_inv (diag3 (r' / r, g' / g, b' / b))) B)]"
proof -
  from assms(2) have d: "det3 B \<noteq> 0" and i: "B_inv = scale_mat (1 / det3 B) (adjugate3 B)"
    by (auto simp: np_linalg_inv_def split: if_splits)
  have D: "row_as_diagonal (np_divide r' r, np_divide g' g, np_divide b' b) =
      lift_mat (diag3 (r' / r, g' / g, b' / b))"
    using assms(4-6) by (simp add: np_divide_def)
  show ?thesis
    unfolding adaptation_matrix_single [OF assms(1) d] assms(3,7) i [symmetric]
    by (simp only: prod.case D fmat_mul_lift)
qed

lemma XYZ_to_RGB_single:
  assumes "chromatic_adaptation_matrix_VonKries_vectorise T (colour1 (white_XYZ w1))
      (colour1 (white_XYZ w2)) transform = Inr [lift_mat C]"
  shows "XYZ_to_RGB_vectorise T (colour1 (lift_vec v)) (chroma1 w1) (chroma1 w2) M transform None =
     Inr (colour1 (lift_vec (mat_vec M (mat_vec C v))))"
  using assms
  by (simp add: XYZ_to_RGB_vectorise_def as_array3_colour1_vec as_shape_colour1_vec
      xy_to_XYZ_white broadcast_rows_single apply_transfer_def fmat_vec_lift
      np_reshape_colour1_vec Let_def del: flat3.simps)

lemma RGB_to_XYZ_single:
  assumes "chromatic_adaptation_matrix_VonKries_vectorise T (colour1 (white_XYZ w1))
      (colour1 (white_XYZ w2)) transform = Inr [lift_mat C]"
  shows "RGB_to_XYZ_vectorise T (colour1 (lift_vec v)) (chroma1 w1) (chroma1 w2) M transform None =
     Inr (colour1 (lift_vec (mat_vec C (mat_vec M v))))"
  using assms
  by (simp add: RGB_to_XYZ_vectorise_def as_array3_colour1_vec as_shape_colour1_vec
      xy_to_XYZ_white broadcast_rows_single apply_transfer_def fmat_vec_lift
      np_reshape_colour1_vec Let_def del: flat3.simps)






lemma cone_nonzero_bradford:
  "cone_nonzero bradford (0.34567, 0.35850)" "cone_nonzero bradford (0.31271, 0.32902)"
  by (simp_all add: cone_nonzero_def white_XYZ_def bradford_def)



text \<open>
  The file's own pair of matrices: \<open>M_RGB_to_XYZ\<close> inverts \<open>M_XYZ_to_RGB\<close> only to eight
  digits, and the round trip of the spec's colour, computed exactly, still ends within
  \<open>1e-6\<close> of where it started.
\<close>

lemma adaptation_matrix_von_Kries:
  assumes "registry_get T transform = Some B" "det3 B \<noteq> 0" "cone_nonzero B w"
  shows "chromatic_adaptation_matrix_VonKries_vectorise T (colour1 (white_XYZ w))
           (colour1 (white_XYZ wr)) transform = Inr [lift_mat (von_Kries B w wr)]"
proof -
  obtain r g b where 1: "mat_vec B (white_XYZ w) = (r, g, b)"
    using prod_cases3 by blast
  obtain r' g' b' where 2: "mat_vec B (white_XYZ wr) = (r', g', b')"
    using prod_cases3 by blast
  from assms(3) 1 have n: "r \<noteq> 0" "g \<noteq> 0" "b \<noteq> 0"
    by (simp_all add: cone_nonzero_def)
  from assms(2) have inv: "np_linalg_inv B = Inr (scale_mat (1 / det3 B) (adjugate3 B))"
    by (simp add: np_linalg_inv_def)
  show ?thesis
    unfolding von_Kries_def 1 2
    using adaptation_matrix_finite [OF assms(1) inv 1 n 2] by simp
qed

lemma round_trip_file_matrices_values:
  "case mat_vec (von_Kries bradford (0.31271, 0.32902) (0.34567, 0.35850))
          (mat_vec M_RGB_to_XYZ (mat_vec M_XYZ_to_RGB
             (mat_vec (von_Kries bradford (0.34567, 0.35850) (0.31271, 0.32902))
                (0.07049534, 0.1008, 0.09558313)))) of
     (X, Y, Z) \<Rightarrow> \<bar>X - 0.07049534\<bar> \<le> 1 / 10 ^ 6 \<and> \<bar>Y - 0.1008\<bar> \<le> 1 / 10 ^ 6
        \<and> \<bar>Z - 0.09558313\<bar> \<le> 1 / 10 ^ 6"
  by (simp add: von_Kries_def M_RGB_to_XYZ_def M_XYZ_to_RGB_def bradford_def white_XYZ_def)

lemma round_trip_file_matrices:
  "\<exists>RGB X Y Z.
      XYZ_to_RGB_vectorise example_transforms
        (colour1 (Fin 0.07049534, Fin 0.1008, Fin 0.09558313))
        (chroma1 (0.34567, 0.35850)) (chroma1 (0.31271, 0.32902)) M_XYZ_to_RGB
        ''Bradford'' None = Inr RGB
    \<and> RGB_to_XYZ_vectorise example_transforms RGB
        (chroma1 (0.31271, 0.32902)) (chroma1 (0.34567, 0.35850)) M_RGB_to_XYZ
        ''Bradford'' None = Inr (colour1 (Fin X, Fin Y, Fin Z))
    \<and> \<bar>X - 0.07049534\<bar> \<le> 1 / 10 ^ 6 \<and> \<bar>Y - 0.1008\<bar> \<le> 1 / 10 ^ 6
    \<and> \<bar>Z - 0.09558313\<bar> \<le> 1 / 10 ^ 6"
proof -
  let ?C1 = "von_Kries bradford (0.34567, 0.35850) (0.31271, 0.32902)"
  let ?C2 = "von_Kries bradford (0.31271, 0.32902) (0.34567, 0.35850)"
  let ?v = "(0.07049534, 0.1008, 0.09558313) :: real vec3"
  let ?rgb = "mat_vec M_XYZ_to_RGB (mat_vec ?C1 ?v)"
  obtain X Y Z where xyz: "mat_vec ?C2 (mat_vec M_RGB_to_XYZ ?rgb) = (X, Y, Z)"
    using prod_cases3 by blast
  have c1: "chromatic_adaptation_matrix_VonKries_vectorise example_transforms
      (colour1 (white_XYZ (0.34567, 0.35850))) (colour1 (white_XYZ (0.31271, 0.32902)))
      ''Bradford'' = Inr [lift_mat ?C1]"
    by (rule adaptation_matrix_von_Kries [OF registry_get_Bradford det3_bradford
          cone_nonzero_bradford(1)])
  have c2: "chromatic_adaptation_matrix_VonKries_vectorise example_transforms
      (colour1 (white_XYZ (0.31271, 0.32902))) (colour1 (white_XYZ (0.34567, 0.35850)))
      ''Bradford'' = Inr [lift_mat ?C2]"
    by (rule adaptation_matrix_von_Kries [OF registry_get_Bradford det3_bradford
          cone_nonzero_bradford(2)])
  have x: "XYZ_to_RGB_vectorise example_transforms (colour1 (lift_vec ?v))
      (chroma1 (0.34567, 0.35850)) (chroma1 (0.31271, 0.32902)) M_XYZ_to_RGB ''Bradford'' None
      = Inr (colour1 (lift_vec ?rgb))"
    by (rule XYZ_to_RGB_single [OF c1])
  have y: "RGB_to_XYZ_vectorise example_transforms (colour1 (lift_vec ?rgb))
      (chroma1 (0.31271, 0.32902)) (chroma1 (0.34567, 0.35850)) M_RGB_to_XYZ ''Bradford'' None
      = Inr (colour1 (lift_vec (X, Y, Z)))"
    by (simp only: RGB_to_XYZ_single [OF c2] xyz)
  have bounds: "\<bar>X - 0.07049534\<bar> \<le> 1 / 10 ^ 6 \<and> \<bar>Y - 0.1008\<bar> \<le> 1 / 10 ^ 6
      \<and> \<bar>Z - 0.09558313\<bar> \<le> 1 / 10 ^ 6"
    using round_trip_file_matrices_values unfolding xyz by simp
  from x y bounds show ?thesis
    by (intro exI [of _ "colour1 (lift_vec ?rgb)"] exI [of _ X] exI [of _ Y] exI [of _ Z])
       simp
qed

section \<open>The domain check of the tristimulus lookup\<close>




















end
